theory Spec2Isabelle
  imports Main
begin

section \<open>rave-level: leader election over a shared LevelDB location\<close>

text \<open>
  The module \<^verbatim>\<open>index.js\<close> defines the class \<^verbatim>\<open>RaveLevel\<close> (a many-level guest) with two
  methods, \<^verbatim>\<open>[kConnect]\<close> and \<^verbatim>\<open>[kDestroy]\<close>, and the helper \<^verbatim>\<open>socketPath\<close>.
  \<^verbatim>\<open>[kConnect]\<close> is written as a chain of nested callbacks. Each callback is embedded as a
  function from the facade's state to the new state and the list of effects it performs, in
  program order. The callbacks the event loop still owes the facade are kept in the state
  (\<open>pending\<close>); an event of the environment resumes one of them.
\<close>

subsection \<open>Errors\<close>

text \<open>
  A JavaScript error object, as far as the module inspects it: \<^verbatim>\<open>err.code\<close>, \<^verbatim>\<open>err.cause\<close>.
\<close>

datatype error = Error (err_message: string) (err_code: "string option") (err_cause: "error option")

text \<open>\<^verbatim>\<open>new ModuleError(message, { cause })\<close>: no code is given, the cause may be undefined.\<close>

definition ModuleError :: "string \<Rightarrow> error option \<Rightarrow> error" where
  "ModuleError msg cause = Error msg None cause"

text \<open>\<^verbatim>\<open>err.cause && err.cause.code === 'LEVEL_LOCKED'\<close>\<close>

definition is_locked :: "error \<Rightarrow> bool" where
  "is_locked err =
     (case err_cause err of
        None \<Rightarrow> False
      | Some c \<Rightarrow> err_code c = Some ''LEVEL_LOCKED'')"

text \<open>\<^verbatim>\<open>err && err.code !== 'ENOENT'\<close>\<close>

definition unlink_failed :: "error option \<Rightarrow> bool" where
  "unlink_failed err =
     (case err of
        None \<Rightarrow> False
      | Some e \<Rightarrow> err_code e \<noteq> Some ''ENOENT'')"

subsection \<open>Paths and the rendezvous address\<close>

text \<open>
  \<^verbatim>\<open>path.resolve\<close> and \<^verbatim>\<open>path.join\<close> belong to the platform's \<^verbatim>\<open>path\<close> module; the
  module under study only calls them. They are a parameter of the model.
\<close>

record pathlib =
  resolve :: "string \<Rightarrow> string"
  join :: "string \<Rightarrow> string \<Rightarrow> string"

definition backslash :: char where
  "backslash = CHR 0x5C"

text \<open>The string literal \<^verbatim>\<open>'\\\\.\\pipe\\rave-level\\'\<close> of the source.\<close>

definition pipe_prefix :: string where
  "pipe_prefix =
     [backslash, backslash] @ ''.'' @ [backslash] @ ''pipe'' @ [backslash]
       @ ''rave-level'' @ [backslash]"

text \<open>\<^verbatim>\<open>socketPath(location)\<close>, with \<^verbatim>\<open>process.platform\<close> made a parameter.\<close>

definition socketPath :: "string \<Rightarrow> pathlib \<Rightarrow> string \<Rightarrow> string" where
  "socketPath platform P location =
     (if platform = ''win32'' then pipe_prefix @ location
      else join P location ''rave-level.sock'')"

text \<open>
  One instance of the parameter: the POSIX flavour of \<^verbatim>\<open>path\<close>, for a process whose
  working directory is \<open>cwd\<close> (an absolute path). Paths are cut at \<^verbatim>\<open>/\<close>; empty
  segments and \<^verbatim>\<open>.\<close> are dropped, \<^verbatim>\<open>..\<close> removes the segment before it.
\<close>

fun split_path :: "string \<Rightarrow> string \<Rightarrow> string list" where
  "split_path seg [] = [seg]"
| "split_path seg (c # cs) =
     (if c = CHR ''/'' then seg # split_path [] cs else split_path (seg @ [c]) cs)"

fun normalizeString :: "bool \<Rightarrow> string list \<Rightarrow> string list \<Rightarrow> string list" where
  "normalizeString allowAboveRoot res [] = res"
| "normalizeString allowAboveRoot res (seg # segs) =
     (if seg = [] \<or> seg = ''.'' then normalizeString allowAboveRoot res segs
      else if seg = ''..'' then
        (if res \<noteq> [] \<and> last res \<noteq> ''..'' then normalizeString allowAboveRoot (butlast res) segs
         else if allowAboveRoot then normalizeString allowAboveRoot (res @ [''..'']) segs
         else normalizeString allowAboveRoot res segs)
      else normalizeString allowAboveRoot (res @ [seg]) segs)"

fun join_segments :: "string list \<Rightarrow> string" where
  "join_segments [] = []"
| "join_segments [seg] = seg"
| "join_segments (seg # segs) = seg @ ''/'' @ join_segments segs"

definition isAbsolute :: "string \<Rightarrow> bool" where
  "isAbsolute p = (case p of [] \<Rightarrow> False | c # _ \<Rightarrow> c = CHR ''/'')"

definition posix_normalize :: "string \<Rightarrow> string" where
  "posix_normalize p =
     (if p = [] then ''.''
      else
        let trailing = (last p = CHR ''/'');
            r = join_segments (normalizeString (\<not> isAbsolute p) [] (split_path [] p))
        in if r = [] then (if isAbsolute p then ''/'' else if trailing then ''./'' else ''.'')
           else (if isAbsolute p then ''/'' else []) @ r @ (if trailing then ''/'' else []))"

definition posix_join :: "string \<Rightarrow> string \<Rightarrow> string" where
  "posix_join a b =
     (if a = [] \<and> b = [] then ''.''
      else posix_normalize (if a = [] then b else if b = [] then a else a @ ''/'' @ b))"

definition posix_resolve :: "string \<Rightarrow> string \<Rightarrow> string" where
  "posix_resolve cwd location =
     (let p = (if isAbsolute location then location else cwd @ ''/'' @ location)
      in ''/'' @ join_segments (normalizeString False [] (split_path [] p)))"

definition posix :: "string \<Rightarrow> pathlib" where
  "posix cwd = \<lparr>resolve = posix_resolve cwd, join = posix_join\<rparr>"

subsection \<open>The facade's state\<close>

datatype status = Opening | Open | Closing | Closed

type_synonym ident = nat

text \<open>
  What \<^verbatim>\<open>attachResource\<close> receives: the \<^verbatim>\<open>ClassicLevel\<close> handle, or the object
  \<^verbatim>\<open>{ close }\<close> built around a server.
\<close>

datatype resource = DbResource ident | ServerResource ident

datatype signal = Leader | ErrorSignal error

text \<open>
  The calls the module makes on its collaborators, one constructor per call site. Objects
  are named by the number they got when they were created. \<open>PipelineGuest sock ref\<close> is
  \<^verbatim>\<open>pipeline(sock, this.createRpcStream(...), sock, callback)\<close>, with \<open>ref\<close> telling
  whether the \<^verbatim>\<open>ref\<close> option was given; \<open>PipelineHost sock server\<close> is the same with the
  stream of the server's host; \<open>NewManyLevelHost server db\<close> is the host created for the
  server around the handle.
\<close>

datatype effect =
    NetConnect ident string
  | OnceConnect ident
  | PipelineGuest ident bool
  | RemoveConnectListener ident
  | NewClassicLevel ident string
  | AttachResource resource
  | DetachResource resource
  | DbOpen ident
  | SetTimeout nat
  | Unlink string
  | NewManyLevelHost ident ident
  | CreateServer ident
  | ServerOnError ident
  | Forward ident
  | Listen ident string
  | ServerUnref ident
  | Emit signal
  | OnceFlush ident
  | RemoveFlushListener ident
  | SockUnref ident
  | PipelineHost ident ident
  | SockDestroy ident
  | ServerRemoveErrorListener ident
  | ServerClose ident
  | DbClose ident

text \<open>
  The callbacks handed to the event loop, each with the variables its closure captured:
  the follower socket's pipeline callback, the callback of \<^verbatim>\<open>db.open\<close> (which also reads
  \<^verbatim>\<open>connected\<close> of its socket), of \<^verbatim>\<open>fs.unlink\<close>, of \<^verbatim>\<open>server.listen\<close>, of the loopback
  pipeline, of the timer, of an accepted connection's pipeline, of \<^verbatim>\<open>server.close\<close>, and
  the callback given to \<^verbatim>\<open>this.open\<close> by the constructor.
\<close>

datatype cont =
    OnOpen
  | OnDisconnect ident
  | OnDbOpen ident ident
  | OnUnlink ident
  | OnListen ident
  | OnFlushEnd ident
  | OnTimer
  | OnHostEnd ident ident
  | OnServerClosed ident

record options =
  keyEncoding :: "string option"
  valueEncoding :: "string option"
  retry :: "bool option"

record facade =
  status :: status
  closeDeferred :: bool
  kLocation :: string
  kSocketPath :: string
  kOptions :: options
  guestRetry :: bool
  resources :: "resource list"
  forwarded :: "ident option"
  flushed :: bool
  fresh :: ident
  connectListeners :: "ident list"
  connected :: "ident list"
  flushListeners :: "ident list"
  errorListeners :: "ident list"
  listening :: "ident list"
  sockets :: "ident \<Rightarrow> ident list"
  pending :: "cont list"

text \<open>A JavaScript \<^verbatim>\<open>Set\<close> keeps insertion order and ignores a second \<^verbatim>\<open>add\<close>.\<close>

definition set_add :: "'a \<Rightarrow> 'a list \<Rightarrow> 'a list" where
  "set_add x xs = (if x \<in> set xs then xs else xs @ [x])"

definition set_delete :: "'a \<Rightarrow> 'a list \<Rightarrow> 'a list" where
  "set_delete x xs = removeAll x xs"

text \<open>Sequencing: the effects \<open>fx\<close> happened before the call that returned \<open>r\<close>.\<close>

definition then_fx :: "effect list \<Rightarrow> facade \<times> effect list \<Rightarrow> facade \<times> effect list" where
  "then_fx fx r = (fst r, fx @ snd r)"

subsection \<open>The constructor\<close>

text \<open>
  \<^verbatim>\<open>constructor (location, options = {})\<close>: the guest is created with
  \<^verbatim>\<open>retry: retry !== false\<close>, the location is resolved, the socket path derived from the
  resolved location, and \<^verbatim>\<open>this.open(this[kConnect])\<close> leaves \<^verbatim>\<open>[kConnect]\<close> as the
  callback of the open. A new guest has no outstanding request.
\<close>

definition RaveLevel :: "string \<Rightarrow> pathlib \<Rightarrow> string \<Rightarrow> options \<Rightarrow> facade" where
  "RaveLevel platform P location opts =
     \<lparr>status = Opening,
      closeDeferred = False,
      kLocation = resolve P location,
      kSocketPath = socketPath platform P (resolve P location),
      kOptions = opts,
      guestRetry = (retry opts \<noteq> Some False),
      resources = [],
      forwarded = None,
      flushed = True,
      fresh = 0,
      connectListeners = [],
      connected = [],
      flushListeners = [],
      errorListeners = [],
      listening = [],
      sockets = (\<lambda>_. []),
      pending = [OnOpen]\<rparr>"

subsection \<open>\<^verbatim>\<open>[kDestroy]\<close> and \<^verbatim>\<open>[kConnect]\<close>\<close>

text \<open>
  \<^verbatim>\<open>[kDestroy] (err) { if (this.status === 'open') { this.emit('error', err) } }\<close>
\<close>

definition kDestroy :: "error \<Rightarrow> facade \<Rightarrow> facade \<times> effect list" where
  "kDestroy err s =
     (if status s = Open then (s, [Emit (ErrorSignal err)]) else (s, []))"

text \<open>
  The synchronous part of \<^verbatim>\<open>[kConnect]\<close>: the status check, \<^verbatim>\<open>net.connect\<close>, the
  \<^verbatim>\<open>connect\<close> listener and the pipeline whose callback is the rest of the method.
\<close>

definition kConnect :: "facade \<Rightarrow> facade \<times> effect list" where
  "kConnect s =
     (if status s \<noteq> Open then (s, [])
      else
        let socket = fresh s
        in (s\<lparr>fresh := Suc socket,
               connectListeners := set_add socket (connectListeners s),
               pending := pending s @ [OnDisconnect socket]\<rparr>,
            [NetConnect socket (kSocketPath s), OnceConnect socket, PipelineGuest socket True]))"

text \<open>\<^verbatim>\<open>const onconnect = () => { connected = true }\<close>, registered with \<^verbatim>\<open>once\<close>.\<close>

definition onconnect :: "ident \<Rightarrow> facade \<Rightarrow> facade \<times> effect list" where
  "onconnect socket s =
     (s\<lparr>connected := set_add socket (connected s),
        connectListeners := set_delete socket (connectListeners s)\<rparr>, [])"

text \<open>
  The pipeline callback of the follower socket: the socket is gone. The listener is
  removed, the status checked, a \<^verbatim>\<open>ClassicLevel\<close> created, attached and opened.
\<close>

definition on_disconnect :: "ident \<Rightarrow> facade \<Rightarrow> facade \<times> effect list" where
  "on_disconnect socket s =
     (let s1 = s\<lparr>connectListeners := set_delete socket (connectListeners s)\<rparr>;
          fx1 = [RemoveConnectListener socket]
      in if status s1 \<noteq> Open then (s1, fx1)
         else
           let db = fresh s1
           in (s1\<lparr>fresh := Suc db,
                   resources := set_add (DbResource db) (resources s1),
                   pending := pending s1 @ [OnDbOpen db socket]\<rparr>,
               fx1 @ [NewClassicLevel db (kLocation s1), AttachResource (DbResource db),
                      DbOpen db]))"

text \<open>
  The callback of \<^verbatim>\<open>db.open\<close>. With an error the handle is detached; a locked store
  retries (at once when the socket had connected, after 100 ms otherwise), any other
  error goes to \<^verbatim>\<open>[kDestroy]\<close>. Without an error the status is checked and the socket
  file unlinked.
\<close>

definition on_db_open :: "ident \<Rightarrow> ident \<Rightarrow> error option \<Rightarrow> facade \<Rightarrow> facade \<times> effect list" where
  "on_db_open db socket err s =
     (case err of
        Some e \<Rightarrow>
          let s1 = s\<lparr>resources := set_delete (DbResource db) (resources s)\<rparr>;
              fx1 = [DetachResource (DbResource db)]
          in if is_locked e then
               (if socket \<in> set (connected s1) then then_fx fx1 (kConnect s1)
                else (s1\<lparr>pending := pending s1 @ [OnTimer]\<rparr>, fx1 @ [SetTimeout 100]))
             else then_fx fx1 (kDestroy e s1)
      | None \<Rightarrow>
          if status s \<noteq> Open then (s, [])
          else (s\<lparr>pending := pending s @ [OnUnlink db]\<rparr>, [Unlink (kSocketPath s)]))"

text \<open>
  The server's connection handler:
  \<^verbatim>\<open>sock.unref(); sockets.add(sock); pipeline(sock, host.createRpcStream(), sock, ...)\<close>.
  The accepted socket is a new object.
\<close>

definition on_connection :: "ident \<Rightarrow> facade \<Rightarrow> facade \<times> effect list" where
  "on_connection server s =
     (let sock = fresh s
      in (s\<lparr>fresh := Suc sock,
             sockets := (sockets s)(server := set_add sock (sockets s server)),
             pending := pending s @ [OnHostEnd server sock]\<rparr>,
          [SockUnref sock, PipelineHost sock server]))"

text \<open>Its pipeline callback, \<^verbatim>\<open>function () { sockets.delete(sock) }\<close>: the error is not read.\<close>

definition on_host_end :: "ident \<Rightarrow> ident \<Rightarrow> error option \<Rightarrow> facade \<Rightarrow> facade \<times> effect list" where
  "on_host_end server sock err s =
     (s\<lparr>sockets := (sockets s)(server := set_delete sock (sockets s server))\<rparr>, [])"

text \<open>
  \<^verbatim>\<open>const close = (cb) => { for (const sock of sockets) sock.destroy();
  server.removeListener('error', this[kDestroy]); server.close(cb) }\<close>.
  The callback is handed to \<^verbatim>\<open>server.close\<close>, which calls it once the server has closed.
\<close>

definition close :: "ident \<Rightarrow> facade \<Rightarrow> facade \<times> effect list" where
  "close server s =
     (s\<lparr>errorListeners := set_delete server (errorListeners s),
        listening := set_delete server (listening s),
        pending := pending s @ [OnServerClosed server]\<rparr>,
      map SockDestroy (sockets s server) @ [ServerRemoveErrorListener server, ServerClose server])"

text \<open>
  The callback of \<^verbatim>\<open>fs.unlink\<close>: status check, error check, then the host, the server, its
  error listener, the \<^verbatim>\<open>{ close }\<close> resource, \<^verbatim>\<open>this.forward(db)\<close> and \<^verbatim>\<open>server.listen\<close>.
\<close>

definition on_unlink :: "ident \<Rightarrow> error option \<Rightarrow> facade \<Rightarrow> facade \<times> effect list" where
  "on_unlink db err s =
     (if status s \<noteq> Open then (s, [])
      else if unlink_failed err then
        (case err of Some e \<Rightarrow> kDestroy e s | None \<Rightarrow> (s, []))
      else
        let server = fresh s
        in (s\<lparr>fresh := Suc server,
               sockets := (sockets s)(server := []),
               errorListeners := set_add server (errorListeners s),
               resources := set_add (ServerResource server) (resources s),
               forwarded := Some db,
               pending := pending s @ [OnListen server]\<rparr>,
            [NewManyLevelHost server db, CreateServer server, ServerOnError server,
             AttachResource (ServerResource server), Forward db,
             Listen server (kSocketPath s)]))"

text \<open>
  Modelled from the spec: the facade's own \<^verbatim>\<open>open\<close> and \<^verbatim>\<open>close\<close> are inherited from
  the guest class and are not part of the module. The facade "owns zero or more attached
  resources that must be closed when the Facade closes", "in attachment order or
  reverse", and closing "at any point" must make the election observe a status other than
  \<^verbatim>\<open>open\<close>. Closing an open facade moves it to \<open>Closing\<close> and closes each attached
  resource, here in attachment order, the engine handle by its own \<^verbatim>\<open>close\<close>, the server
  by the \<^verbatim>\<open>close\<close> function above. A close asked for while the facade is still opening
  is deferred: it takes place as soon as the open has landed, before the callback given to
  \<^verbatim>\<open>open\<close> runs, so that this callback, \<^verbatim>\<open>[kConnect]\<close>, finds the facade closing.
\<close>

fun close_resources :: "resource list \<Rightarrow> facade \<Rightarrow> facade \<times> effect list" where
  "close_resources [] s = (s, [])"
| "close_resources (DbResource db # rs) s = then_fx [DbClose db] (close_resources rs s)"
| "close_resources (ServerResource server # rs) s =
     (case close server s of (s1, fx1) \<Rightarrow> then_fx fx1 (close_resources rs s1))"

definition facade_close :: "facade \<Rightarrow> facade \<times> effect list" where
  "facade_close s =
     (if status s = Open
      then close_resources (resources s) (s\<lparr>status := Closing, resources := []\<rparr>)
      else if status s = Opening then (s\<lparr>closeDeferred := True\<rparr>, [])
      else (s, []))"

definition on_open :: "facade \<Rightarrow> facade \<times> effect list" where
  "on_open s =
     (if status s \<noteq> Opening then kConnect s
      else if closeDeferred s then
        (case facade_close (s\<lparr>status := Open, closeDeferred := False\<rparr>) of
           (s1, fx1) \<Rightarrow> then_fx fx1 (kConnect s1))
      else kConnect (s\<lparr>status := Open\<rparr>))"

text \<open>
  \<^verbatim>\<open>this.emit('leader')\<close> runs the owner's listeners before it returns. The module
  checks the status again after it, so the one thing a listener may do here is close the
  facade.
\<close>

datatype reaction = NoReaction | ClosesFacade

definition emit_leader :: "reaction \<Rightarrow> facade \<Rightarrow> facade \<times> effect list" where
  "emit_leader r s =
     then_fx [Emit Leader] (case r of NoReaction \<Rightarrow> (s, []) | ClosesFacade \<Rightarrow> facade_close s)"

text \<open>
  The callback of \<^verbatim>\<open>server.listen\<close>: \<^verbatim>\<open>server.unref()\<close>, status check,
  \<^verbatim>\<open>emit('leader')\<close>, status and \<^verbatim>\<open>isFlushed()\<close> check, then the loopback connection with
  its pipeline and the \<^verbatim>\<open>flush\<close> listener.
\<close>

definition on_listen :: "ident \<Rightarrow> reaction \<Rightarrow> facade \<Rightarrow> facade \<times> effect list" where
  "on_listen server r s =
     (let fx1 = [ServerUnref server]
      in if status s \<noteq> Open then (s, fx1)
         else
           (case emit_leader r s of (s2, fx2) \<Rightarrow>
              if status s2 \<noteq> Open \<or> flushed s2 then (s2, fx1 @ fx2)
              else
                let sock = fresh s2
                in (s2\<lparr>fresh := Suc sock,
                        flushListeners := set_add sock (flushListeners s2),
                        pending := pending s2 @ [OnFlushEnd sock]\<rparr>,
                    fx1 @ fx2 @ [NetConnect sock (kSocketPath s2), PipelineGuest sock False,
                                 OnceFlush sock])))"

text \<open>
  The callback of the loopback pipeline: the \<^verbatim>\<open>flush\<close> listener is removed, and
  \<^verbatim>\<open>if (!this.isFlushed() && this.status === 'open')\<close> the facade is destroyed with
  \<^verbatim>\<open>new ModuleError('Did not flush', { cause: err })\<close>.
\<close>

definition on_flush_end :: "ident \<Rightarrow> error option \<Rightarrow> facade \<Rightarrow> facade \<times> effect list" where
  "on_flush_end sock err s =
     (let s1 = s\<lparr>flushListeners := set_delete sock (flushListeners s)\<rparr>;
          fx1 = [RemoveFlushListener sock]
      in if \<not> flushed s1 \<and> status s1 = Open
         then then_fx fx1 (kDestroy (ModuleError ''Did not flush'' err) s1)
         else (s1, fx1))"

text \<open>
  The guest emits \<^verbatim>\<open>flush\<close> when no request is outstanding; every registered
  \<^verbatim>\<open>onflush = () => { sock.destroy() }\<close> runs once.
\<close>

definition on_flush :: "facade \<Rightarrow> facade \<times> effect list" where
  "on_flush s =
     (s\<lparr>flushed := True, flushListeners := []\<rparr>, map SockDestroy (flushListeners s))"

subsection \<open>The event loop\<close>

text \<open>
  What the environment may do next: complete the open, report a socket's handshake or
  end, the outcome of \<^verbatim>\<open>db.open\<close> and \<^verbatim>\<open>fs.unlink\<close>, that the server listens, accepts,
  fails or has closed, that the loopback ended, that the guest flushed or received a
  request in proxy mode, that the timer fired, and that the owner closes the facade.
\<close>

datatype event =
    Opened
  | Connected ident
  | Disconnected ident
  | DbOpened ident ident "error option"
  | Unlinked ident "error option"
  | Listening ident reaction
  | Accepted ident
  | HostEnded ident ident "error option"
  | ServerErrored ident error
  | ServerClosed ident
  | FlushEnded ident "error option"
  | Flushed
  | Requested
  | TimerFired
  | CloseCalled
  | CloseFinished

text \<open>A pending callback runs once; an event without its callback changes nothing.\<close>

definition resume :: "cont \<Rightarrow> (facade \<Rightarrow> facade \<times> effect list) \<Rightarrow> facade \<Rightarrow> facade \<times> effect list" where
  "resume k f s =
     (if k \<in> set (pending s) then f (s\<lparr>pending := remove1 k (pending s)\<rparr>) else (s, []))"

fun step :: "event \<Rightarrow> facade \<Rightarrow> facade \<times> effect list" where
  "step Opened s = resume OnOpen on_open s"
| "step (Connected socket) s =
     (if socket \<in> set (connectListeners s) then onconnect socket s else (s, []))"
| "step (Disconnected socket) s = resume (OnDisconnect socket) (on_disconnect socket) s"
| "step (DbOpened db socket err) s = resume (OnDbOpen db socket) (on_db_open db socket err) s"
| "step (Unlinked db err) s = resume (OnUnlink db) (on_unlink db err) s"
| "step (Listening server r) s =
     resume (OnListen server)
       (\<lambda>s. on_listen server r (s\<lparr>listening := set_add server (listening s)\<rparr>)) s"
| "step (Accepted server) s =
     (if server \<in> set (listening s) then on_connection server s else (s, []))"
| "step (HostEnded server sock err) s =
     resume (OnHostEnd server sock) (on_host_end server sock err) s"
| "step (ServerErrored server err) s =
     (if server \<in> set (errorListeners s) then kDestroy err s else (s, []))"
| "step (ServerClosed server) s = resume (OnServerClosed server) (\<lambda>s. (s, [])) s"
| "step (FlushEnded sock err) s = resume (OnFlushEnd sock) (on_flush_end sock err) s"
| "step Flushed s = on_flush s"
| "step Requested s =
     (if status s = Open \<and> forwarded s = None then (s\<lparr>flushed := False\<rparr>, []) else (s, []))"
| "step TimerFired s = resume OnTimer kConnect s"
| "step CloseCalled s = facade_close s"
| "step CloseFinished s =
     (if status s = Closing then (s\<lparr>status := Closed\<rparr>, []) else (s, []))"

fun run :: "event list \<Rightarrow> facade \<Rightarrow> facade \<times> effect list" where
  "run [] s = (s, [])"
| "run (e # es) s = (case step e s of (s1, fx1) \<Rightarrow> then_fx fx1 (run es s1))"

text \<open>The first occurrence of \<open>a\<close> in a trace comes before any occurrence of \<open>b\<close>, and \<open>b\<close> occurs.\<close>

fun precedes :: "'a \<Rightarrow> 'a \<Rightarrow> 'a list \<Rightarrow> bool" where
  "precedes a b [] = False"
| "precedes a b (x # xs) =
     (if x = b then False else if x = a then b \<in> set xs else precedes a b xs)"

subsection \<open>Reading traces\<close>

fun is_error_signal :: "effect \<Rightarrow> bool" where
  "is_error_signal (Emit (ErrorSignal _)) = True"
| "is_error_signal _ = False"

text \<open>Effects that only give back what was acquired: a listener, an attachment, a reference.\<close>

fun releases :: "effect \<Rightarrow> bool" where
  "releases (RemoveConnectListener _) = True"
| "releases (RemoveFlushListener _) = True"
| "releases (DetachResource _) = True"
| "releases (ServerUnref _) = True"
| "releases _ = False"

text \<open>
  A callback abandons the election when it only releases: no new object, no new callback,
  no new attachment, the mode and the status as they were.
\<close>

definition abandons :: "facade \<Rightarrow> facade \<times> effect list \<Rightarrow> bool" where
  "abandons s r =
     (list_all releases (snd r) \<and>
      set (pending (fst r)) \<subseteq> set (pending s) \<and>
      set (resources (fst r)) \<subseteq> set (resources s) \<and>
      fresh (fst r) = fresh s \<and>
      forwarded (fst r) = forwarded s \<and>
      status (fst r) = status s)"

text \<open>The events that resume a step of the election or of the promotion.\<close>

fun election_event :: "event \<Rightarrow> bool" where
  "election_event (Disconnected _) = True"
| "election_event (DbOpened _ _ _) = True"
| "election_event (Unlinked _ _) = True"
| "election_event (Listening _ _) = True"
| "election_event (FlushEnded _ _) = True"
| "election_event TimerFired = True"
| "election_event _ = False"

text \<open>
  The step order as the specification words it: the server starts listening, then the
  flush barrier runs over its loopback connection, and only then the facade is switched
  to direct mode and \<^verbatim>\<open>leader\<close> is emitted.
\<close>

definition spec_step_order :: "ident \<Rightarrow> ident \<Rightarrow> ident \<Rightarrow> string \<Rightarrow> effect list \<Rightarrow> bool" where
  "spec_step_order db server sock path fx =
     (precedes (Listen server path) (NetConnect sock path) fx \<and>
      precedes (NetConnect sock path) (Forward db) fx \<and>
      precedes (NetConnect sock path) (Emit Leader) fx)"

text \<open>
  A terminal error as the specification words it: one error signal, after which the
  facade is no longer open.
\<close>

definition spec_terminal_error :: "facade \<times> effect list \<Rightarrow> bool" where
  "spec_terminal_error r =
     (length (filter is_error_signal (snd r)) = 1 \<and> status (fst r) \<noteq> Open)"

text \<open>
  "Destroyed with an error" as the specification words it: the error is signalled and the
  facade is no longer open.
\<close>

definition spec_destroyed_with :: "error \<Rightarrow> facade \<times> effect list \<Rightarrow> bool" where
  "spec_destroyed_with e r =
     (Emit (ErrorSignal e) \<in> set (snd r) \<and> status (fst r) \<noteq> Open)"

text \<open>
  While the server is being started or the loopback connection is open, the facade is
  already in direct mode.
\<close>

definition direct_when_serving :: "facade \<Rightarrow> bool" where
  "direct_when_serving s =
     ((\<forall>server. OnListen server \<in> set (pending s) \<longrightarrow> forwarded s \<noteq> None) \<and>
      (\<forall>sock. OnFlushEnd sock \<in> set (pending s) \<longrightarrow> forwarded s \<noteq> None))"

text \<open>
  The one resumption that arms the retry timer: a pending \<^verbatim>\<open>db.open\<close> reports the
  lock held, and the socket of that attempt never connected.
\<close>

fun lock_backoff :: "event \<Rightarrow> facade \<Rightarrow> bool" where
  "lock_backoff (DbOpened db socket (Some e)) s =
     (OnDbOpen db socket \<in> set (pending s) \<and> is_locked e \<and> socket \<notin> set (connected s))"
| "lock_backoff _ s = False"

subsection \<open>A store at \<^verbatim>\<open>/srv/db\<close>\<close>

definition example_options :: options where
  "example_options = \<lparr>keyEncoding = None, valueEncoding = Some ''json'', retry = None\<rparr>"

definition example_facade :: facade where
  "example_facade = RaveLevel ''linux'' (posix ''/srv'') ''db'' example_options"

text \<open>The error \<^verbatim>\<open>db.open\<close> gives when another process holds the lock, and two others.\<close>

definition locked_error :: error where
  "locked_error =
     Error ''Failed to connect to database'' (Some ''LEVEL_DATABASE_NOT_OPEN'')
       (Some (Error ''IO error: lock'' (Some ''LEVEL_LOCKED'') None))"

definition corrupt_error :: error where
  "corrupt_error =
     Error ''Failed to connect to database'' (Some ''LEVEL_DATABASE_NOT_OPEN'')
       (Some (Error ''Corruption'' (Some ''LEVEL_CORRUPTION'') None))"

definition enoent_error :: error where
  "enoent_error = Error ''no such file or directory'' (Some ''ENOENT'') None"

definition eacces_error :: error where
  "eacces_error = Error ''permission denied'' (Some ''EACCES'') None"

definition eaddrinuse_error :: error where
  "eaddrinuse_error = Error ''address already in use'' (Some ''EADDRINUSE'') None"

section \<open>Properties\<close>

subsection \<open>Closing the attached resources\<close>

lemma close_resources_status [simp]: "status (fst (close_resources rs s)) = status s"
  by (induction rs s rule: close_resources.induct)
     (auto simp: then_fx_def close_def split: prod.splits)

lemma close_resources_no_signal: "Emit x \<notin> set (snd (close_resources rs s))"
  by (induction rs s rule: close_resources.induct)
     (auto simp: then_fx_def close_def split: prod.splits)

text \<open>After a deferred close the callback of the open finds the facade closing.\<close>

lemma on_open_cases:
  "on_open s =
     (if status s \<noteq> Opening then kConnect s
      else if closeDeferred s then
        close_resources (resources s)
          (s\<lparr>closeDeferred := False, status := Closing, resources := []\<rparr>)
      else kConnect (s\<lparr>status := Open\<rparr>))"
proof (cases "status s = Opening \<and> closeDeferred s")
  case True
  let ?c = "close_resources (resources s)
              (s\<lparr>closeDeferred := False, status := Closing, resources := []\<rparr>)"
  have "status (fst ?c) = Closing"
    by simp
  then have "then_fx (snd ?c) (kConnect (fst ?c)) = ?c"
    by (simp add: then_fx_def kConnect_def)
  moreover from True have "on_open s = then_fx (snd ?c) (kConnect (fst ?c))"
    by (simp add: on_open_def facade_close_def split_beta)
  ultimately show ?thesis
    using True by simp
next
  case False
  then show ?thesis
    by (auto simp: on_open_def)
qed

lemmas callback_defs =
  kDestroy_def kConnect_def onconnect_def on_disconnect_def on_db_open_def on_connection_def
  on_host_end_def close_def on_unlink_def on_listen_def on_flush_end_def on_flush_def
  emit_leader_def facade_close_def on_open_cases resume_def then_fx_def unlink_failed_def
  ModuleError_def

lemmas example_defs =
  example_facade_def example_options_def RaveLevel_def socketPath_def posix_def
  posix_resolve_def posix_join_def posix_normalize_def isAbsolute_def
  locked_error_def corrupt_error_def enoent_error_def eacces_error_def eaddrinuse_error_def
  is_locked_def set_add_def set_delete_def

subsection \<open>No error signal unless the facade is open\<close>

lemma step_no_error_unless_open:
  "status s \<noteq> Open \<Longrightarrow> Emit (ErrorSignal x) \<notin> set (snd (step ev s))"
  by (cases ev)
     (auto simp: callback_defs Let_def close_resources_no_signal
           split: option.splits prod.splits reaction.splits)

lemma step_closed_stays:
  "status s = Closing \<or> status s = Closed \<Longrightarrow>
   status (fst (step ev s)) = Closing \<or> status (fst (step ev s)) = Closed"
  by (cases ev)
     (auto simp: callback_defs Let_def split: option.splits prod.splits reaction.splits)

lemma run_no_error_after_close:
  "status s = Closing \<or> status s = Closed \<Longrightarrow>
   Emit (ErrorSignal x) \<notin> set (snd (run evs s))"
proof (induction evs arbitrary: s)
  case Nil
  then show ?case by simp
next
  case (Cons ev evs)
  obtain s1 fx1 where st: "step ev s = (s1, fx1)"
    by (cases "step ev s")
  from Cons.prems have "status s \<noteq> Open"
    by auto
  then have now: "Emit (ErrorSignal x) \<notin> set fx1"
    using step_no_error_unless_open [of s x ev] st by simp
  from step_closed_stays [OF Cons.prems, of ev] st
  have "status s1 = Closing \<or> status s1 = Closed"
    by simp
  then have "Emit (ErrorSignal x) \<notin> set (snd (run evs s1))"
    by (rule Cons.IH)
  with now st show ?case
    by (simp add: then_fx_def)
qed

text \<open>
  Claim C10. \<^verbatim>\<open>[kDestroy]\<close> does nothing unless the status is \<^verbatim>\<open>open\<close>: in any other
  status it returns the state as it was and emits nothing, and once the facade has begun
  or finished closing no sequence of later events ever emits an error signal.
\<close>

theorem kDestroy_noop_unless_open:
  "(status s \<noteq> Open \<longrightarrow> kDestroy err s = (s, [])) \<and>
   (status s = Closing \<or> status s = Closed \<longrightarrow>
      (\<forall>evs x. Emit (ErrorSignal x) \<notin> set (snd (run evs s))))"
  by (simp add: kDestroy_def run_no_error_after_close)

theorem kDestroy_noop_unless_open_witness:
  "status (fst (run [Opened, CloseCalled] example_facade)) = Closing \<and>
   kDestroy corrupt_error (fst (run [Opened, CloseCalled] example_facade))
     = (fst (run [Opened, CloseCalled] example_facade), []) \<and>
   Emit (ErrorSignal corrupt_error) \<notin>
     set (snd (run [Disconnected 0, DbOpened 1 0 (Some corrupt_error)]
                (fst (run [Opened, CloseCalled] example_facade))))"
proof -
  let ?s = "fst (run [Opened, CloseCalled] example_facade)"
  have st: "status ?s = Closing"
    by (simp add: example_defs callback_defs)
  from st have "status ?s \<noteq> Open" and "status ?s = Closing \<or> status ?s = Closed"
    by simp_all
  with kDestroy_noop_unless_open [of ?s corrupt_error]
  have "kDestroy corrupt_error ?s = (?s, [])"
    and "\<forall>evs x. Emit (ErrorSignal x) \<notin> set (snd (run evs ?s))"
    by blast+
  with st show ?thesis
    by blast
qed

subsection \<open>Lock contention\<close>

text \<open>
  Claim C2. When \<^verbatim>\<open>db.open\<close> fails with the \<^verbatim>\<open>LEVEL_LOCKED\<close> cause: if the follower
  socket of this attempt had connected, \<^verbatim>\<open>[kConnect]\<close> is called again in the same
  callback, right after the handle is detached; if it had not, the only effects are the
  detachment and a timer of 100 ms, whose callback is \<^verbatim>\<open>[kConnect]\<close>; in both cases no
  error signal is emitted.
\<close>

theorem lock_contention_retries:
  assumes "is_locked e"
  shows "(socket \<in> set (connected s) \<longrightarrow>
            on_db_open db socket (Some e) s =
              then_fx [DetachResource (DbResource db)]
                (kConnect (s\<lparr>resources := set_delete (DbResource db) (resources s)\<rparr>))) \<and>
         (socket \<notin> set (connected s) \<longrightarrow>
            snd (on_db_open db socket (Some e) s) =
              [DetachResource (DbResource db), SetTimeout 100] \<and>
            OnTimer \<in> set (pending (fst (on_db_open db socket (Some e) s))) \<and>
            snd (step TimerFired (fst (on_db_open db socket (Some e) s))) = snd (kConnect s)) \<and>
         list_all (\<lambda>x. \<not> is_error_signal x) (snd (on_db_open db socket (Some e) s))"
  using assms
  apply (intro conjI impI)
      apply (simp_all add: on_db_open_def Let_def)
    apply (simp_all add: kConnect_def Let_def then_fx_def resume_def)
  done

theorem lock_contention_retries_witness:
  "is_locked locked_error \<and>
   snd (on_db_open 1 0 (Some locked_error)
          (fst (run [Opened, Connected 0, Disconnected 0] example_facade))) =
     [DetachResource (DbResource 1), NetConnect 2 ''/srv/db/rave-level.sock'', OnceConnect 2,
      PipelineGuest 2 True] \<and>
   snd (on_db_open 1 0 (Some locked_error)
          (fst (run [Opened, Disconnected 0] example_facade))) =
     [DetachResource (DbResource 1), SetTimeout 100]"
proof -
  let ?a = "fst (run [Opened, Connected 0, Disconnected 0] example_facade)"
  let ?b = "fst (run [Opened, Disconnected 0] example_facade)"
  have l: "is_locked locked_error"
    by (simp add: is_locked_def locked_error_def)
  have a: "0 \<in> set (connected ?a)"
    by (simp add: example_defs callback_defs)
  have b: "0 \<notin> set (connected ?b)"
    by (simp add: example_defs callback_defs)
  have k: "snd (kConnect (?a\<lparr>resources := set_delete (DbResource 1) (resources ?a)\<rparr>)) =
     [NetConnect 2 ''/srv/db/rave-level.sock'', OnceConnect 2, PipelineGuest 2 True]"
    by (simp add: example_defs callback_defs)
  from lock_contention_retries [OF l, of 0 ?a 1] a
  have "on_db_open 1 0 (Some locked_error) ?a =
          then_fx [DetachResource (DbResource 1)]
            (kConnect (?a\<lparr>resources := set_delete (DbResource 1) (resources ?a)\<rparr>))"
    by blast
  with k have ra: "snd (on_db_open 1 0 (Some locked_error) ?a) =
     [DetachResource (DbResource 1), NetConnect 2 ''/srv/db/rave-level.sock'', OnceConnect 2,
      PipelineGuest 2 True]"
    by (simp add: then_fx_def)
  from lock_contention_retries [OF l, of 0 ?b 1] b
  have rb: "snd (on_db_open 1 0 (Some locked_error) ?b) =
          [DetachResource (DbResource 1), SetTimeout 100]"
    by blast
  from l ra rb show ?thesis
    by blast
qed

subsection \<open>The loopback connection ends\<close>

text \<open>
  Claim C3, as stated, fails in one word. A leader whose loopback connection ends with an
  error while a request is outstanding does emit the error \<^verbatim>\<open>Did not flush\<close> with that
  cause, but the facade is not destroyed: it is still \<^verbatim>\<open>open\<close> afterwards.
\<close>

theorem drain_failure_counterexample:
  "Emit (ErrorSignal (Error ''Did not flush'' None (Some eaddrinuse_error))) \<in>
     set (snd (on_flush_end 3 (Some eaddrinuse_error)
       (fst (run [Opened, Requested, Disconnected 0, DbOpened 1 0 None, Unlinked 1 None,
                  Listening 2 NoReaction] example_facade)))) \<and>
   \<not> spec_destroyed_with (Error ''Did not flush'' None (Some eaddrinuse_error))
       (on_flush_end 3 (Some eaddrinuse_error)
          (fst (run [Opened, Requested, Disconnected 0, DbOpened 1 0 None, Unlinked 1 None,
                     Listening 2 NoReaction] example_facade)))"
  by (simp add: spec_destroyed_with_def example_defs callback_defs)

text \<open>
  Claim C3, amended. When the loopback pipeline ends while the status is \<^verbatim>\<open>open\<close> and
  the guest is not flushed, \<^verbatim>\<open>[kDestroy]\<close> is called with the error \<^verbatim>\<open>Did not flush\<close>
  whose cause is the error the pipeline ended with: that one error signal is emitted, the
  flush listener is removed, and the facade is otherwise as it was, still \<^verbatim>\<open>open\<close>, with
  the same attached resources and the same mode. When the guest is flushed or the status
  is not \<^verbatim>\<open>open\<close>, the listener is removed and nothing is emitted.
\<close>

theorem drain_failure_reported:
  "(status s = Open \<and> \<not> flushed s \<longrightarrow>
      on_flush_end sock cause s =
        (s\<lparr>flushListeners := set_delete sock (flushListeners s)\<rparr>,
         [RemoveFlushListener sock,
          Emit (ErrorSignal (Error ''Did not flush'' None cause))]) \<and>
      status (fst (on_flush_end sock cause s)) = Open \<and>
      resources (fst (on_flush_end sock cause s)) = resources s \<and>
      forwarded (fst (on_flush_end sock cause s)) = forwarded s) \<and>
   (flushed s \<or> status s \<noteq> Open \<longrightarrow>
      on_flush_end sock cause s =
        (s\<lparr>flushListeners := set_delete sock (flushListeners s)\<rparr>,
         [RemoveFlushListener sock]))"
  by (simp add: on_flush_end_def kDestroy_def ModuleError_def then_fx_def Let_def)

theorem drain_failure_reported_witness:
  "snd (on_flush_end 3 (Some eaddrinuse_error)
          (fst (run [Opened, Requested, Disconnected 0, DbOpened 1 0 None, Unlinked 1 None,
                     Listening 2 NoReaction] example_facade))) =
     [RemoveFlushListener 3,
      Emit (ErrorSignal (Error ''Did not flush'' None (Some eaddrinuse_error)))] \<and>
   status (fst (on_flush_end 3 (Some eaddrinuse_error)
          (fst (run [Opened, Requested, Disconnected 0, DbOpened 1 0 None, Unlinked 1 None,
                     Listening 2 NoReaction] example_facade)))) = Open \<and>
   snd (on_flush_end 3 None
          (fst (run [Opened, Requested, Disconnected 0, DbOpened 1 0 None, Unlinked 1 None,
                     Listening 2 NoReaction, Flushed] example_facade))) =
     [RemoveFlushListener 3]"
proof -
  let ?a = "fst (run [Opened, Requested, Disconnected 0, DbOpened 1 0 None, Unlinked 1 None,
                      Listening 2 NoReaction] example_facade)"
  let ?b = "fst (run [Opened, Requested, Disconnected 0, DbOpened 1 0 None, Unlinked 1 None,
                      Listening 2 NoReaction, Flushed] example_facade)"
  have a: "status ?a = Open \<and> \<not> flushed ?a"
    by (simp add: example_defs callback_defs)
  have b: "flushed ?b"
    by (simp add: example_defs callback_defs)
  from a drain_failure_reported [of ?a 3 "Some eaddrinuse_error"]
  have "on_flush_end 3 (Some eaddrinuse_error) ?a =
        (?a\<lparr>flushListeners := set_delete 3 (flushListeners ?a)\<rparr>,
         [RemoveFlushListener 3,
          Emit (ErrorSignal (Error ''Did not flush'' None (Some eaddrinuse_error)))])"
    and rs: "status (fst (on_flush_end 3 (Some eaddrinuse_error) ?a)) = Open"
    by blast+
  then have ra: "snd (on_flush_end 3 (Some eaddrinuse_error) ?a) =
     [RemoveFlushListener 3,
      Emit (ErrorSignal (Error ''Did not flush'' None (Some eaddrinuse_error)))]"
    by (simp del: run.simps)
  from b drain_failure_reported [of ?b 3 None]
  have "on_flush_end 3 None ?b =
        (?b\<lparr>flushListeners := set_delete 3 (flushListeners ?b)\<rparr>, [RemoveFlushListener 3])"
    by blast
  then have rb: "snd (on_flush_end 3 None ?b) = [RemoveFlushListener 3]"
    by (simp del: run.simps)
  from ra rs rb show ?thesis
    by blast
qed

subsection \<open>The stale socket file\<close>

text \<open>
  Claim C6, as stated, fails in one word. When the unlink fails with \<^verbatim>\<open>EACCES\<close> the error
  is emitted, but the facade is not destroyed: it is still \<^verbatim>\<open>open\<close> and the engine handle
  is still attached.
\<close>

theorem stale_artifact_counterexample:
  "Emit (ErrorSignal eacces_error) \<in>
     set (snd (on_unlink 1 (Some eacces_error)
       (fst (run [Opened, Disconnected 0, DbOpened 1 0 None] example_facade)))) \<and>
   DbResource 1 \<in> set (resources (fst (on_unlink 1 (Some eacces_error)
       (fst (run [Opened, Disconnected 0, DbOpened 1 0 None] example_facade))))) \<and>
   \<not> spec_destroyed_with eacces_error
       (on_unlink 1 (Some eacces_error)
          (fst (run [Opened, Disconnected 0, DbOpened 1 0 None] example_facade)))"
  by (simp add: spec_destroyed_with_def example_defs callback_defs)

text \<open>
  Claim C6, amended. Once \<^verbatim>\<open>db.open\<close> has succeeded the socket file is unlinked, and the
  server is created only in the callback of the unlink. An unlink error with code
  \<^verbatim>\<open>ENOENT\<close> leaves the callback doing exactly what it does without an error; with any
  other error and the status \<^verbatim>\<open>open\<close>, \<^verbatim>\<open>[kDestroy]\<close> is called with that error: the
  error signal is emitted, no server is started, and the facade is as it was, still
  \<^verbatim>\<open>open\<close>, with the engine handle still attached and the mode unchanged.
\<close>

theorem stale_artifact_cleanup:
  "(status s = Open \<longrightarrow>
      on_db_open db socket None s =
        (s\<lparr>pending := pending s @ [OnUnlink db]\<rparr>, [Unlink (kSocketPath s)])) \<and>
   (err_code e = Some ''ENOENT'' \<longrightarrow> on_unlink db (Some e) s = on_unlink db None s) \<and>
   (status s = Open \<longrightarrow>
      snd (on_unlink db None s) =
        [NewManyLevelHost (fresh s) db, CreateServer (fresh s), ServerOnError (fresh s),
         AttachResource (ServerResource (fresh s)), Forward db,
         Listen (fresh s) (kSocketPath s)]) \<and>
   (status s = Open \<and> err_code e \<noteq> Some ''ENOENT'' \<longrightarrow>
      on_unlink db (Some e) s = (s, [Emit (ErrorSignal e)]) \<and>
      status (fst (on_unlink db (Some e) s)) = Open \<and>
      resources (fst (on_unlink db (Some e) s)) = resources s \<and>
      forwarded (fst (on_unlink db (Some e) s)) = forwarded s)"
  by (simp add: on_db_open_def on_unlink_def unlink_failed_def kDestroy_def Let_def)

theorem stale_artifact_cleanup_witness:
  "on_unlink 1 (Some enoent_error)
     (fst (run [Opened, Disconnected 0, DbOpened 1 0 None] example_facade)) =
   on_unlink 1 None
     (fst (run [Opened, Disconnected 0, DbOpened 1 0 None] example_facade)) \<and>
   snd (on_unlink 1 (Some enoent_error)
     (fst (run [Opened, Disconnected 0, DbOpened 1 0 None] example_facade))) =
     [NewManyLevelHost 2 1, CreateServer 2, ServerOnError 2,
      AttachResource (ServerResource 2), Forward 1, Listen 2 ''/srv/db/rave-level.sock''] \<and>
   snd (on_unlink 1 (Some eacces_error)
     (fst (run [Opened, Disconnected 0, DbOpened 1 0 None] example_facade))) =
     [Emit (ErrorSignal eacces_error)] \<and>
   snd (on_db_open 1 0 None (fst (run [Opened, Disconnected 0] example_facade))) =
     [Unlink ''/srv/db/rave-level.sock'']"
proof -
  let ?s = "fst (run [Opened, Disconnected 0, DbOpened 1 0 None] example_facade)"
  let ?o = "fst (run [Opened, Disconnected 0] example_facade)"
  have st: "status ?s = Open" and fr: "fresh ?s = 2"
    and pa: "kSocketPath ?s = ''/srv/db/rave-level.sock''"
    by (simp_all add: example_defs callback_defs)
  have so: "status ?o = Open" and po: "kSocketPath ?o = ''/srv/db/rave-level.sock''"
    by (simp_all add: example_defs callback_defs)
  have c1: "err_code enoent_error = Some ''ENOENT''"
    and c2: "err_code eacces_error \<noteq> Some ''ENOENT''"
    by (simp_all add: enoent_error_def eacces_error_def)
  from stale_artifact_cleanup [of ?s 1 0 enoent_error] st c1
  have r1: "on_unlink 1 (Some enoent_error) ?s = on_unlink 1 None ?s"
    and r2: "snd (on_unlink 1 None ?s) =
        [NewManyLevelHost (fresh ?s) 1, CreateServer (fresh ?s), ServerOnError (fresh ?s),
         AttachResource (ServerResource (fresh ?s)), Forward 1,
         Listen (fresh ?s) (kSocketPath ?s)]"
    by blast+
  from stale_artifact_cleanup [of ?s 1 0 eacces_error] st c2
  have r3: "on_unlink 1 (Some eacces_error) ?s = (?s, [Emit (ErrorSignal eacces_error)])"
    by blast
  from stale_artifact_cleanup [of ?o 1 0 enoent_error] so
  have "on_db_open 1 0 None ?o =
      (?o\<lparr>pending := pending ?o @ [OnUnlink 1]\<rparr>, [Unlink (kSocketPath ?o)])"
    by blast
  then have r4: "snd (on_db_open 1 0 None ?o) = [Unlink ''/srv/db/rave-level.sock'']"
    unfolding po by (simp del: run.simps)
  from r1 r2 r3 have "on_unlink 1 (Some enoent_error) ?s = on_unlink 1 None ?s \<and>
     snd (on_unlink 1 (Some enoent_error) ?s) =
       [NewManyLevelHost 2 1, CreateServer 2, ServerOnError 2,
        AttachResource (ServerResource 2), Forward 1, Listen 2 ''/srv/db/rave-level.sock''] \<and>
     snd (on_unlink 1 (Some eacces_error) ?s) = [Emit (ErrorSignal eacces_error)]"
    unfolding fr pa by (simp del: run.simps)
  with r4 show ?thesis
    by blast
qed

subsection \<open>The leader's server\<close>

text \<open>
  Claim C7. The server's \<^verbatim>\<open>close\<close> destroys every socket of the active set, in the
  set's order, then removes the error listener and calls \<^verbatim>\<open>server.close\<close> with the
  callback, which therefore runs after the server has stopped. The connection handler
  puts the accepted socket into the active set and pipes it through the host's stream,
  with the removal as the pipeline's callback: when the pipeline of an accepted socket
  ends, with or without an error, the socket leaves the set, the other sockets stay, and
  nothing is emitted.
\<close>

theorem server_close_and_connections:
  "snd (close server s) =
     map SockDestroy (sockets s server) @
       [ServerRemoveErrorListener server, ServerClose server] \<and>
   OnServerClosed server \<in> set (pending (fst (close server s))) \<and>
   on_connection server s =
     (s\<lparr>fresh := Suc (fresh s),
        sockets := (sockets s)(server := set_add (fresh s) (sockets s server)),
        pending := pending s @ [OnHostEnd server (fresh s)]\<rparr>,
      [SockUnref (fresh s), PipelineHost (fresh s) server]) \<and>
   fresh s \<in> set (sockets (fst (on_connection server s)) server) \<and>
   (server \<in> set (listening s) \<longrightarrow>
      snd (run [Accepted server, HostEnded server (fresh s) err] s) =
        [SockUnref (fresh s), PipelineHost (fresh s) server] \<and>
      fresh s \<notin> set (sockets
        (fst (run [Accepted server, HostEnded server (fresh s) err] s)) server) \<and>
      status (fst (run [Accepted server, HostEnded server (fresh s) err] s)) = status s) \<and>
   sock \<notin> set (sockets (fst (on_host_end server sock err s)) server) \<and>
   (\<forall>other. other \<noteq> sock \<longrightarrow>
      (other \<in> set (sockets (fst (on_host_end server sock err s)) server)) =
      (other \<in> set (sockets s server))) \<and>
   snd (on_host_end server sock err s) = [] \<and>
   status (fst (on_host_end server sock err s)) = status s"
  by (auto simp add: close_def on_connection_def on_host_end_def resume_def then_fx_def
        set_add_def set_delete_def Let_def)

theorem server_close_and_connections_witness:
  "snd (close 2
     (fst (run [Opened, Disconnected 0, DbOpened 1 0 None, Unlinked 1 None,
                Listening 2 NoReaction, Accepted 2, Accepted 2] example_facade))) =
     [SockDestroy 3, SockDestroy 4, ServerRemoveErrorListener 2, ServerClose 2] \<and>
   4 \<in> set (sockets (fst (on_host_end 2 3 (Some eaddrinuse_error)
     (fst (run [Opened, Disconnected 0, DbOpened 1 0 None, Unlinked 1 None,
                Listening 2 NoReaction, Accepted 2, Accepted 2] example_facade)))) 2) \<and>
   3 \<notin> set (sockets (fst (on_host_end 2 3 (Some eaddrinuse_error)
     (fst (run [Opened, Disconnected 0, DbOpened 1 0 None, Unlinked 1 None,
                Listening 2 NoReaction, Accepted 2, Accepted 2] example_facade)))) 2) \<and>
   snd (run [Accepted 2, HostEnded 2 5 (Some eaddrinuse_error)]
     (fst (run [Opened, Disconnected 0, DbOpened 1 0 None, Unlinked 1 None,
                Listening 2 NoReaction, Accepted 2, Accepted 2] example_facade))) =
     [SockUnref 5, PipelineHost 5 2] \<and>
   5 \<notin> set (sockets (fst (run [Accepted 2, HostEnded 2 5 (Some eaddrinuse_error)]
     (fst (run [Opened, Disconnected 0, DbOpened 1 0 None, Unlinked 1 None,
                Listening 2 NoReaction, Accepted 2, Accepted 2] example_facade)))) 2)"
proof -
  let ?s = "fst (run [Opened, Disconnected 0, DbOpened 1 0 None, Unlinked 1 None,
                      Listening 2 NoReaction, Accepted 2, Accepted 2] example_facade)"
  have socks: "sockets ?s 2 = [3, 4]"
    by (simp add: example_defs callback_defs)
  have li: "2 \<in> set (listening ?s)" and fr: "fresh ?s = 5"
    by (simp_all add: example_defs callback_defs)
  have ne: "(4::nat) \<noteq> 3"
    by simp
  from server_close_and_connections [of 2 ?s "Some eaddrinuse_error" 3]
  have r1: "snd (close 2 ?s) =
      map SockDestroy (sockets ?s 2) @ [ServerRemoveErrorListener 2, ServerClose 2]"
    and r2: "3 \<notin> set (sockets (fst (on_host_end 2 3 (Some eaddrinuse_error) ?s)) 2)"
    and r3: "\<forall>other. other \<noteq> 3 \<longrightarrow>
      (other \<in> set (sockets (fst (on_host_end 2 3 (Some eaddrinuse_error) ?s)) 2)) =
      (other \<in> set (sockets ?s 2))"
    by blast+
  from li server_close_and_connections [of 2 ?s "Some eaddrinuse_error" 3]
  have r6: "snd (run [Accepted 2, HostEnded 2 (fresh ?s) (Some eaddrinuse_error)] ?s) =
        [SockUnref (fresh ?s), PipelineHost (fresh ?s) 2]"
    and r7: "fresh ?s \<notin> set (sockets
        (fst (run [Accepted 2, HostEnded 2 (fresh ?s) (Some eaddrinuse_error)] ?s)) 2)"
    by blast+
  from r3 ne have "(4 \<in> set (sockets (fst (on_host_end 2 3 (Some eaddrinuse_error) ?s)) 2)) =
      (4 \<in> set (sockets ?s 2))"
    by blast
  then have r4: "4 \<in> set (sockets (fst (on_host_end 2 3 (Some eaddrinuse_error) ?s)) 2)"
    unfolding socks by simp
  from r1 have r5: "snd (close 2 ?s) =
      [SockDestroy 3, SockDestroy 4, ServerRemoveErrorListener 2, ServerClose 2]"
    unfolding socks by simp
  from r5 r4 r2 r6 r7 show ?thesis
    unfolding fr by blast
qed

subsection \<open>The rendezvous address\<close>





subsection \<open>A handle that failed to open\<close>

lemma close_resources_DbClose:
  "DbClose d \<in> set (snd (close_resources rs s)) \<Longrightarrow> DbResource d \<in> set rs"
  by (induction rs s rule: close_resources.induct)
     (auto simp: then_fx_def close_def split: prod.splits)

lemma close_resources_resources [simp]:
  "resources (fst (close_resources rs s)) = resources s"
  by (induction rs s rule: close_resources.induct)
     (auto simp: then_fx_def close_def split: prod.splits)

lemma close_resources_fresh [simp]:
  "fresh (fst (close_resources rs s)) = fresh s"
  by (induction rs s rule: close_resources.induct)
     (auto simp: then_fx_def close_def split: prod.splits)

lemma step_detached:
  assumes "DbResource d \<notin> set (resources s)" and "d < fresh s"
  shows "DbResource d \<notin> set (resources (fst (step ev s))) \<and> d < fresh (fst (step ev s)) \<and>
         DbClose d \<notin> set (snd (step ev s))"
  using assms
  by (cases ev)
     (auto simp: callback_defs Let_def set_add_def set_delete_def
           dest: close_resources_DbClose
           split: option.splits prod.splits reaction.splits if_splits)

lemma run_detached:
  assumes "DbResource d \<notin> set (resources s)" and "d < fresh s"
  shows "DbClose d \<notin> set (snd (run evs s))"
  using assms
proof (induction evs arbitrary: s)
  case Nil
  show ?case by simp
next
  case (Cons ev evs)
  obtain s1 fx1 where st: "step ev s = (s1, fx1)"
    by (cases "step ev s")
  from step_detached [OF Cons.prems, of ev] st
  have "DbResource d \<notin> set (resources s1)" and "d < fresh s1" and "DbClose d \<notin> set fx1"
    by simp_all
  with Cons.IH [of s1] st show ?case
    by (simp add: then_fx_def)
qed

lemma in_remove1D: "x \<in> set (remove1 k xs) \<Longrightarrow> x \<in> set xs"
  by (meson notin_set_remove1)

lemma close_resources_pending_db:
  "OnDbOpen db socket \<in> set (pending (fst (close_resources rs t))) \<Longrightarrow>
   OnDbOpen db socket \<in> set (pending t)"
  by (induction rs t rule: close_resources.induct)
     (auto simp: then_fx_def close_def split: prod.splits)

lemma step_pending_db_allocated:
  assumes "\<forall>db socket. OnDbOpen db socket \<in> set (pending s) \<longrightarrow> db < fresh s"
  shows "\<forall>db socket. OnDbOpen db socket \<in> set (pending (fst (step ev s))) \<longrightarrow>
           db < fresh (fst (step ev s))"
  using assms
  apply (cases ev)
                 apply (auto simp: callback_defs Let_def less_Suc_eq
      split: option.splits prod.splits reaction.splits if_splits
      dest!: in_remove1D close_resources_pending_db)
   apply blast+
  done

lemma run_pending_db_allocated:
  assumes "\<forall>db socket. OnDbOpen db socket \<in> set (pending s) \<longrightarrow> db < fresh s"
  shows "\<forall>db socket. OnDbOpen db socket \<in> set (pending (fst (run evs s))) \<longrightarrow>
           db < fresh (fst (run evs s))"
  using assms
proof (induction evs arbitrary: s)
  case Nil
  then show ?case by simp
next
  case (Cons ev evs)
  obtain s1 fx1 where st: "step ev s = (s1, fx1)"
    by (cases "step ev s")
  from step_pending_db_allocated [OF Cons.prems, of ev] st
  have "\<forall>db socket. OnDbOpen db socket \<in> set (pending s1) \<longrightarrow> db < fresh s1"
    by simp
  from Cons.IH [OF this] st show ?case
    by (simp add: then_fx_def)
qed

text \<open>
  Claim C9. Whenever \<^verbatim>\<open>db.open\<close> reports an error, of any kind, the first thing the
  callback does is detach the handle: the retry (\<^verbatim>\<open>[kConnect]\<close> or the timer) and the
  destruction (\<^verbatim>\<open>[kDestroy]\<close>) come after it and run on a facade that no longer has the
  handle among its attached resources. Whatever happens afterwards, a close of the facade
  included, the handle is never closed by the facade.
\<close>

theorem failed_handle_detached:
  assumes "OnDbOpen db socket \<in> set (pending (fst (run evs0 (RaveLevel platform P location opts))))"
  shows "(let s = fst (run evs0 (RaveLevel platform P location opts));
              s1 = s\<lparr>resources := set_delete (DbResource db) (resources s)\<rparr>;
              r = on_db_open db socket (Some e) s
          in DbResource db \<notin> set (resources s1) \<and>
             snd r = DetachResource (DbResource db) #
               (if is_locked e
                then (if socket \<in> set (connected s) then snd (kConnect s1) else [SetTimeout 100])
                else snd (kDestroy e s1)) \<and>
             DbResource db \<notin> set (resources (fst r)) \<and>
             (\<forall>evs. DbClose db \<notin> set (snd (run evs (fst r)))))"
proof -
  let ?s = "fst (run evs0 (RaveLevel platform P location opts))"
  let ?s1 = "?s\<lparr>resources := set_delete (DbResource db) (resources ?s)\<rparr>"
  let ?r = "on_db_open db socket (Some e) ?s"
  have "\<forall>db socket. OnDbOpen db socket \<in> set (pending (RaveLevel platform P location opts)) \<longrightarrow>
          db < fresh (RaveLevel platform P location opts)"
    by (simp add: RaveLevel_def)
  from run_pending_db_allocated [OF this, of evs0] assms
  have al: "db < fresh ?s"
    by blast
  have before: "DbResource db \<notin> set (resources ?s1)"
    by (simp add: set_delete_def)
  have order: "snd ?r = DetachResource (DbResource db) #
      (if is_locked e
       then (if socket \<in> set (connected ?s) then snd (kConnect ?s1) else [SetTimeout 100])
       else snd (kDestroy e ?s1))"
    by (simp add: on_db_open_def then_fx_def Let_def)
  have gone: "DbResource db \<notin> set (resources (fst ?r))"
    by (simp add: on_db_open_def kConnect_def kDestroy_def then_fx_def Let_def set_delete_def)
  have "fresh ?s \<le> fresh (fst ?r)"
    by (simp add: on_db_open_def kConnect_def kDestroy_def then_fx_def Let_def)
  with al have "db < fresh (fst ?r)"
    by simp
  with gone have "\<forall>evs. DbClose db \<notin> set (snd (run evs (fst ?r)))"
    by (simp add: run_detached)
  with before order gone show ?thesis
    unfolding Let_def by blast
qed

theorem failed_handle_detached_witness:
  "OnDbOpen 1 0 \<in> set (pending (fst (run [Opened, Disconnected 0] example_facade))) \<and>
   DbResource 1 \<in> set (resources (fst (run [Opened, Disconnected 0] example_facade))) \<and>
   DbClose 1 \<notin> set (snd (run [CloseCalled]
     (fst (on_db_open 1 0 (Some locked_error)
        (fst (run [Opened, Disconnected 0] example_facade))))))"
proof -
  let ?s = "fst (run [Opened, Disconnected 0] example_facade)"
  have p: "OnDbOpen 1 0 \<in> set (pending ?s)"
    by (simp add: example_defs callback_defs)
  have a: "DbResource 1 \<in> set (resources ?s)"
    by (simp add: example_defs callback_defs)
  from p failed_handle_detached
         [where db = 1 and socket = 0 and ?evs0.0 = "[Opened, Disconnected 0]"
            and platform = "''linux''" and P = "posix ''/srv''" and location = "''db''"
            and opts = example_options and e = locked_error]
  have "\<forall>evs. DbClose 1 \<notin> set (snd (run evs (fst (on_db_open 1 0 (Some locked_error) ?s))))"
    unfolding example_facade_def Let_def by blast
  then have "DbClose 1 \<notin> set (snd (run [CloseCalled]
      (fst (on_db_open 1 0 (Some locked_error) ?s))))"
    by blast
  with p a show ?thesis
    by blast
qed

subsection \<open>The order of promotion\<close>

lemma close_resources_forwarded [simp]:
  "forwarded (fst (close_resources rs s)) = forwarded s"
  by (induction rs s rule: close_resources.induct)
     (auto simp: then_fx_def close_def split: prod.splits)

lemma close_resources_pending_listen:
  "OnListen server \<in> set (pending (fst (close_resources rs t))) \<Longrightarrow>
   OnListen server \<in> set (pending t)"
  by (induction rs t rule: close_resources.induct)
     (auto simp: then_fx_def close_def split: prod.splits)

lemma close_resources_pending_flush:
  "OnFlushEnd sock \<in> set (pending (fst (close_resources rs t))) \<Longrightarrow>
   OnFlushEnd sock \<in> set (pending t)"
  by (induction rs t rule: close_resources.induct)
     (auto simp: then_fx_def close_def split: prod.splits)

lemma step_direct_when_serving:
  assumes "direct_when_serving s"
  shows "direct_when_serving (fst (step ev s))"
  using assms unfolding direct_when_serving_def
  by (cases ev)
     (auto simp: callback_defs Let_def
           split: option.splits prod.splits reaction.splits if_splits
           dest!: in_remove1D close_resources_pending_listen close_resources_pending_flush)

lemma run_direct_when_serving:
  assumes "direct_when_serving s"
  shows "direct_when_serving (fst (run evs s))"
  using assms
proof (induction evs arbitrary: s)
  case Nil
  then show ?case by simp
next
  case (Cons ev evs)
  obtain s1 fx1 where st: "step ev s = (s1, fx1)"
    by (cases "step ev s")
  from step_direct_when_serving [OF Cons.prems, of ev] st
  have "direct_when_serving s1"
    by simp
  from Cons.IH [OF this] st show ?case
    by (simp add: then_fx_def)
qed

text \<open>
  Claim C1, as stated, fails. A facade with one outstanding request that wins the lock
  calls \<^verbatim>\<open>forward\<close> before \<^verbatim>\<open>listen\<close> and emits \<^verbatim>\<open>leader\<close> before it opens the loopback
  connection: the flush barrier starts last, not before the switch to direct mode.
\<close>

theorem promotion_step_order_counterexample:
  "\<not> spec_step_order 1 2 3 ''/srv/db/rave-level.sock''
       (snd (run [Opened, Requested, Disconnected 0, DbOpened 1 0 None, Unlinked 1 None,
                  Listening 2 NoReaction] example_facade))"
  by (simp add: spec_step_order_def example_defs callback_defs)

lemma close_resources_no_connect:
  "NetConnect sock path \<notin> set (snd (close_resources rs s))"
  by (induction rs s rule: close_resources.induct)
     (auto simp: then_fx_def close_def split: prod.splits)

text \<open>
  Claim C1, amended. After the unlink the leader-elect creates the server, attaches it,
  switches the facade to direct mode and only then calls \<^verbatim>\<open>listen\<close>; once the server
  listens it emits \<^verbatim>\<open>leader\<close>, provided the facade is open, and opens the loopback
  connection of the flush barrier only after that, and only when the facade is still open
  once the listeners of \<^verbatim>\<open>leader\<close> have run and a request is still outstanding: a facade
  that was closed before the server listened only drops the server's reference, one whose
  listener closes it is closed and gets no loopback connection, and with nothing
  outstanding there is no loopback connection either. In every execution, whenever a
  loopback connection is open, and so whenever it ends, the facade is already in direct
  mode.
\<close>

theorem promotion_step_order:
  "(status s = Open \<and> \<not> flushed s \<and> OnUnlink db \<in> set (pending s) \<and> \<not> unlink_failed err \<longrightarrow>
      snd (run [Unlinked db err, Listening (fresh s) NoReaction] s) =
        [NewManyLevelHost (fresh s) db, CreateServer (fresh s), ServerOnError (fresh s),
         AttachResource (ServerResource (fresh s)), Forward db,
         Listen (fresh s) (kSocketPath s), ServerUnref (fresh s), Emit Leader,
         NetConnect (Suc (fresh s)) (kSocketPath s), PipelineGuest (Suc (fresh s)) False,
         OnceFlush (Suc (fresh s))]) \<and>
   (status s \<noteq> Open \<longrightarrow> on_listen server r s = (s, [ServerUnref server])) \<and>
   (status s = Open \<and> flushed s \<longrightarrow>
      snd (on_listen server NoReaction s) = [ServerUnref server, Emit Leader]) \<and>
   (status s = Open \<longrightarrow>
      on_listen server ClosesFacade s =
        then_fx [ServerUnref server, Emit Leader] (facade_close s) \<and>
      status (fst (on_listen server ClosesFacade s)) = Closing) \<and>
   ((\<exists>sock path. NetConnect sock path \<in> set (snd (on_listen server r s))) =
      (status s = Open \<and> status (fst (emit_leader r s)) = Open \<and>
       \<not> flushed (fst (emit_leader r s)))) \<and>
   (OnFlushEnd sock \<in> set (pending (fst (run evs (RaveLevel platform P location opts)))) \<longrightarrow>
      forwarded (fst (run evs (RaveLevel platform P location opts))) \<noteq> None)"
proof (intro conjI impI)
  assume "status s = Open \<and> \<not> flushed s \<and> OnUnlink db \<in> set (pending s) \<and>
          \<not> unlink_failed err"
  then show "snd (run [Unlinked db err, Listening (fresh s) NoReaction] s) =
        [NewManyLevelHost (fresh s) db, CreateServer (fresh s), ServerOnError (fresh s),
         AttachResource (ServerResource (fresh s)), Forward db,
         Listen (fresh s) (kSocketPath s), ServerUnref (fresh s), Emit Leader,
         NetConnect (Suc (fresh s)) (kSocketPath s), PipelineGuest (Suc (fresh s)) False,
         OnceFlush (Suc (fresh s))]"
    by (simp add: resume_def on_unlink_def on_listen_def emit_leader_def then_fx_def Let_def)
next
  assume "status s \<noteq> Open"
  then show "on_listen server r s = (s, [ServerUnref server])"
    by (simp add: on_listen_def)
next
  assume "status s = Open \<and> flushed s"
  then show "snd (on_listen server NoReaction s) = [ServerUnref server, Emit Leader]"
    by (simp add: on_listen_def emit_leader_def then_fx_def Let_def)
next
  assume "status s = Open"
  then show "on_listen server ClosesFacade s =
      then_fx [ServerUnref server, Emit Leader] (facade_close s)"
    by (simp add: on_listen_def emit_leader_def facade_close_def then_fx_def Let_def split_beta)
next
  assume "status s = Open"
  then show "status (fst (on_listen server ClosesFacade s)) = Closing"
    by (simp add: on_listen_def emit_leader_def facade_close_def then_fx_def Let_def split_beta)
next
  show "(\<exists>sock path. NetConnect sock path \<in> set (snd (on_listen server r s))) =
      (status s = Open \<and> status (fst (emit_leader r s)) = Open \<and>
       \<not> flushed (fst (emit_leader r s)))"
    by (cases r)
       (auto simp: on_listen_def emit_leader_def facade_close_def then_fx_def Let_def
          close_resources_no_connect split_beta)
next
  assume p: "OnFlushEnd sock \<in> set (pending (fst (run evs (RaveLevel platform P location opts))))"
  have "direct_when_serving (RaveLevel platform P location opts)"
    by (simp add: direct_when_serving_def RaveLevel_def)
  then have "direct_when_serving (fst (run evs (RaveLevel platform P location opts)))"
    by (rule run_direct_when_serving)
  with p show "forwarded (fst (run evs (RaveLevel platform P location opts))) \<noteq> None"
    unfolding direct_when_serving_def by blast
qed

theorem promotion_step_order_witness:
  "OnFlushEnd 3 \<in> set (pending (fst (run
      [Opened, Requested, Disconnected 0, DbOpened 1 0 None, Unlinked 1 None,
       Listening 2 NoReaction] example_facade))) \<and>
   forwarded (fst (run
      [Opened, Requested, Disconnected 0, DbOpened 1 0 None, Unlinked 1 None,
       Listening 2 NoReaction] example_facade)) \<noteq> None \<and>
   snd (run [Unlinked 1 (Some enoent_error), Listening 2 NoReaction]
     (fst (run [Opened, Requested, Disconnected 0, DbOpened 1 0 None] example_facade))) =
     [NewManyLevelHost 2 1, CreateServer 2, ServerOnError 2, AttachResource (ServerResource 2),
      Forward 1, Listen 2 ''/srv/db/rave-level.sock'', ServerUnref 2, Emit Leader,
      NetConnect 3 ''/srv/db/rave-level.sock'', PipelineGuest 3 False, OnceFlush 3] \<and>
   snd (on_listen 2 NoReaction
     (fst (run [Opened, Disconnected 0, DbOpened 1 0 None, Unlinked 1 None] example_facade))) =
     [ServerUnref 2, Emit Leader] \<and>
   status (fst (on_listen 2 ClosesFacade
     (fst (run [Opened, Requested, Disconnected 0, DbOpened 1 0 None, Unlinked 1 None]
             example_facade)))) = Closing \<and>
   \<not> (\<exists>sock path. NetConnect sock path \<in> set (snd (on_listen 2 ClosesFacade
     (fst (run [Opened, Requested, Disconnected 0, DbOpened 1 0 None, Unlinked 1 None]
             example_facade))))) \<and>
   on_listen 2 NoReaction
     (fst (run [Opened, Requested, Disconnected 0, DbOpened 1 0 None, Unlinked 1 None,
                CloseCalled] example_facade)) =
   (fst (run [Opened, Requested, Disconnected 0, DbOpened 1 0 None, Unlinked 1 None,
              CloseCalled] example_facade), [ServerUnref 2])"
proof -
  let ?evs = "[Opened, Requested, Disconnected 0, DbOpened 1 0 None, Unlinked 1 None,
               Listening 2 NoReaction]"
  let ?s = "fst (run [Opened, Requested, Disconnected 0, DbOpened 1 0 None] example_facade)"
  let ?u = "fst (run [Opened, Disconnected 0, DbOpened 1 0 None, Unlinked 1 None]
                   example_facade)"
  let ?v = "fst (run [Opened, Requested, Disconnected 0, DbOpened 1 0 None, Unlinked 1 None]
                   example_facade)"
  let ?w = "fst (run [Opened, Requested, Disconnected 0, DbOpened 1 0 None, Unlinked 1 None,
                      CloseCalled] example_facade)"
  have p: "OnFlushEnd 3 \<in> set (pending (fst (run ?evs example_facade)))"
    by (simp add: example_defs callback_defs)
  have h: "status ?s = Open \<and> \<not> flushed ?s \<and> OnUnlink 1 \<in> set (pending ?s) \<and>
           \<not> unlink_failed (Some enoent_error)"
    by (simp add: example_defs callback_defs)
  have fr: "fresh ?s = 2" and pa: "kSocketPath ?s = ''/srv/db/rave-level.sock''"
    by (simp_all add: example_defs callback_defs)
  have u: "status ?u = Open \<and> flushed ?u"
    by (simp add: example_defs callback_defs)
  have v: "status ?v = Open"
    by (simp add: example_defs callback_defs)
  have ve: "status (fst (emit_leader ClosesFacade ?v)) \<noteq> Open"
    by (simp add: example_defs callback_defs)
  have w: "status ?w \<noteq> Open"
    by (simp add: example_defs callback_defs)
  from p promotion_step_order
         [where sock = 3 and evs = ?evs and platform = "''linux''" and P = "posix ''/srv''"
            and location = "''db''" and opts = example_options]
  have a: "forwarded (fst (run ?evs example_facade)) \<noteq> None"
    unfolding example_facade_def by blast
  from h promotion_step_order [where s = ?s and db = 1 and err = "Some enoent_error"]
  have "snd (run [Unlinked 1 (Some enoent_error), Listening (fresh ?s) NoReaction] ?s) =
        [NewManyLevelHost (fresh ?s) 1, CreateServer (fresh ?s), ServerOnError (fresh ?s),
         AttachResource (ServerResource (fresh ?s)), Forward 1,
         Listen (fresh ?s) (kSocketPath ?s), ServerUnref (fresh ?s), Emit Leader,
         NetConnect (Suc (fresh ?s)) (kSocketPath ?s), PipelineGuest (Suc (fresh ?s)) False,
         OnceFlush (Suc (fresh ?s))]"
    by blast
  then have b: "snd (run [Unlinked 1 (Some enoent_error), Listening 2 NoReaction] ?s) =
     [NewManyLevelHost 2 1, CreateServer 2, ServerOnError 2, AttachResource (ServerResource 2),
      Forward 1, Listen 2 ''/srv/db/rave-level.sock'', ServerUnref 2, Emit Leader,
      NetConnect 3 ''/srv/db/rave-level.sock'', PipelineGuest 3 False, OnceFlush 3]"
    unfolding fr pa by (simp del: run.simps)
  from u promotion_step_order [where s = ?u and server = 2]
  have c: "snd (on_listen 2 NoReaction ?u) = [ServerUnref 2, Emit Leader]"
    by blast
  from v promotion_step_order [where s = ?v and server = 2]
  have d: "status (fst (on_listen 2 ClosesFacade ?v)) = Closing"
    by blast
  from ve promotion_step_order [where s = ?v and server = 2 and r = ClosesFacade]
  have e: "\<not> (\<exists>sock path. NetConnect sock path \<in> set (snd (on_listen 2 ClosesFacade ?v)))"
    by blast
  from w promotion_step_order [where s = ?w and server = 2 and r = NoReaction]
  have f: "on_listen 2 NoReaction ?w = (?w, [ServerUnref 2])"
    by blast
  from p a b c d e f show ?thesis
    by blast
qed

subsection \<open>Closing during the election\<close>

text \<open>
  Claim C4, as stated, fails at one resumption point. The facade is closed while
  \<^verbatim>\<open>db.open\<close> is in flight; the open then fails on the lock, the socket never having
  connected: the callback does not look at the status and arms the retry timer.
\<close>

theorem close_abandons_election_counterexample:
  "status (fst (run [Opened, Disconnected 0, CloseCalled] example_facade)) = Closing \<and>
   election_event (DbOpened 1 0 (Some locked_error)) \<and>
   \<not> abandons (fst (run [Opened, Disconnected 0, CloseCalled] example_facade))
       (step (DbOpened 1 0 (Some locked_error))
          (fst (run [Opened, Disconnected 0, CloseCalled] example_facade)))"
  by (simp add: abandons_def example_defs callback_defs)

text \<open>
  Claim C4, amended. When the status is not \<^verbatim>\<open>open\<close>, \<^verbatim>\<open>[kConnect]\<close> changes nothing and
  performs nothing, and every resumption of the election (the follower socket ended,
  \<^verbatim>\<open>db.open\<close> returned, the unlink returned, the server listens, the loopback ended, the
  timer fired) only releases what it holds and registers no further callback, with one
  exception: when \<^verbatim>\<open>db.open\<close> reports the lock held and the socket had not connected,
  the handle is detached and the 100 ms timer is armed all the same; the status stays as it
  was, and the election is abandoned when that timer fires.
\<close>

theorem close_abandons_election:
  assumes "status s \<noteq> Open"
  shows "kConnect s = (s, []) \<and>
         (election_event ev \<and> \<not> lock_backoff ev s \<longrightarrow> abandons s (step ev s)) \<and>
         (lock_backoff ev s \<longrightarrow>
            (\<exists>db. snd (step ev s) = [DetachResource (DbResource db), SetTimeout 100]) \<and>
            status (fst (step ev s)) = status s \<and>
            abandons (fst (step ev s)) (step TimerFired (fst (step ev s))))"
proof (intro conjI impI)
  from assms show "kConnect s = (s, [])"
    by (simp add: kConnect_def)
next
  assume "election_event ev \<and> \<not> lock_backoff ev s"
  with assms show "abandons s (step ev s)"
    by (cases ev)
       (auto simp: abandons_def callback_defs Let_def set_delete_def
             split: option.splits dest: in_remove1D)
next
  assume "lock_backoff ev s"
  then show "\<exists>db. snd (step ev s) = [DetachResource (DbResource db), SetTimeout 100]"
    by (cases "(ev, s)" rule: lock_backoff.cases) (auto simp: callback_defs Let_def)
next
  assume "lock_backoff ev s"
  then show "status (fst (step ev s)) = status s"
    by (cases "(ev, s)" rule: lock_backoff.cases) (auto simp: callback_defs Let_def)
next
  assume "lock_backoff ev s"
  then have "status (fst (step ev s)) = status s"
    by (cases "(ev, s)" rule: lock_backoff.cases) (auto simp: callback_defs Let_def)
  with assms have "status (fst (step ev s)) \<noteq> Open"
    by simp
  then show "abandons (fst (step ev s)) (step TimerFired (fst (step ev s)))"
    by (auto simp: abandons_def resume_def kConnect_def dest: in_remove1D)
qed

theorem close_abandons_election_witness:
  "status (fst (run [Opened, Disconnected 0, DbOpened 1 0 None, CloseCalled] example_facade))
     \<noteq> Open \<and>
   OnUnlink 1 \<in> set (pending
     (fst (run [Opened, Disconnected 0, DbOpened 1 0 None, CloseCalled] example_facade))) \<and>
   abandons (fst (run [Opened, Disconnected 0, DbOpened 1 0 None, CloseCalled] example_facade))
     (step (Unlinked 1 None)
        (fst (run [Opened, Disconnected 0, DbOpened 1 0 None, CloseCalled] example_facade))) \<and>
   kConnect (fst (run [Opened, Disconnected 0, DbOpened 1 0 None, CloseCalled] example_facade))
     = (fst (run [Opened, Disconnected 0, DbOpened 1 0 None, CloseCalled] example_facade), []) \<and>
   lock_backoff (DbOpened 1 0 (Some locked_error))
     (fst (run [Opened, Disconnected 0, CloseCalled] example_facade)) \<and>
   status (fst (step (DbOpened 1 0 (Some locked_error))
     (fst (run [Opened, Disconnected 0, CloseCalled] example_facade)))) = Closing"
proof -
  let ?s = "fst (run [Opened, Disconnected 0, DbOpened 1 0 None, CloseCalled] example_facade)"
  let ?c = "fst (run [Opened, Disconnected 0, CloseCalled] example_facade)"
  have st: "status ?s \<noteq> Open"
    by (simp add: example_defs callback_defs)
  have p: "OnUnlink 1 \<in> set (pending ?s)"
    by (simp add: example_defs callback_defs)
  have ev: "election_event (Unlinked 1 None) \<and> \<not> lock_backoff (Unlinked 1 None) ?s"
    by (simp del: run.simps)
  have cl: "status ?c = Closing"
    by (simp add: example_defs callback_defs)
  then have cn: "status ?c \<noteq> Open"
    by simp
  have lb: "lock_backoff (DbOpened 1 0 (Some locked_error)) ?c"
    by (simp add: example_defs callback_defs)
  from close_abandons_election [OF st, of "Unlinked 1 None"] ev
  have a: "abandons ?s (step (Unlinked 1 None) ?s)" and b: "kConnect ?s = (?s, [])"
    by blast+
  from close_abandons_election [OF cn, of "DbOpened 1 0 (Some locked_error)"] lb
  have "status (fst (step (DbOpened 1 0 (Some locked_error)) ?c)) = status ?c"
    by blast
  with cl have c: "status (fst (step (DbOpened 1 0 (Some locked_error)) ?c)) = Closing"
    by (simp del: run.simps step.simps)
  from st p a b lb c show ?thesis
    by blast
qed

subsection \<open>Fatal conditions\<close>

text \<open>
  Claim C5, as stated, fails. After the unlink has failed with \<^verbatim>\<open>EACCES\<close> the error is
  emitted and the facade is still \<^verbatim>\<open>open\<close>. A leader whose server reports an error and whose
  loopback connection then ends unflushed emits two error signals, and is still \<^verbatim>\<open>open\<close>
  and in direct mode.
\<close>

theorem fatal_conditions_counterexample:
  "\<not> spec_terminal_error
       (step (Unlinked 1 (Some eacces_error))
          (fst (run [Opened, Disconnected 0, DbOpened 1 0 None] example_facade))) \<and>
   \<not> spec_terminal_error
       (run [ServerErrored 2 eaddrinuse_error, FlushEnded 3 None]
          (fst (run [Opened, Requested, Disconnected 0, DbOpened 1 0 None, Unlinked 1 None,
                     Listening 2 NoReaction] example_facade)))"
  by (simp add: spec_terminal_error_def example_defs callback_defs)

text \<open>
  Claim C5, amended. Each fatal condition that arrives while the status is \<^verbatim>\<open>open\<close> (an
  error of \<^verbatim>\<open>db.open\<close> other than the lock, an unlink error other than \<^verbatim>\<open>ENOENT\<close>, an
  error event of the server, a loopback connection that ends unflushed) calls
  \<^verbatim>\<open>[kDestroy]\<close>, which emits exactly one error signal carrying the error and changes
  nothing: the status stays \<^verbatim>\<open>open\<close>, nothing is closed, and no retry is registered.
\<close>

theorem fatal_conditions_emit_error:
  assumes "status s = Open"
  shows "kDestroy e s = (s, [Emit (ErrorSignal e)]) \<and>
         (\<not> is_locked e \<longrightarrow>
            on_db_open db socket (Some e) s =
              (s\<lparr>resources := set_delete (DbResource db) (resources s)\<rparr>,
               [DetachResource (DbResource db), Emit (ErrorSignal e)])) \<and>
         (err_code e \<noteq> Some ''ENOENT'' \<longrightarrow>
            on_unlink db (Some e) s = (s, [Emit (ErrorSignal e)])) \<and>
         (server \<in> set (errorListeners s) \<longrightarrow>
            step (ServerErrored server e) s = (s, [Emit (ErrorSignal e)])) \<and>
         (\<not> flushed s \<longrightarrow>
            on_flush_end sock cause s =
              (s\<lparr>flushListeners := set_delete sock (flushListeners s)\<rparr>,
               [RemoveFlushListener sock,
                Emit (ErrorSignal (ModuleError ''Did not flush'' cause))]))"
  using assms
  by (simp add: kDestroy_def on_db_open_def on_unlink_def unlink_failed_def on_flush_end_def
        then_fx_def Let_def)

theorem fatal_conditions_emit_error_witness:
  "status (fst (run [Opened, Disconnected 0, DbOpened 1 0 None] example_facade)) = Open \<and>
   on_unlink 1 (Some eacces_error)
     (fst (run [Opened, Disconnected 0, DbOpened 1 0 None] example_facade)) =
   (fst (run [Opened, Disconnected 0, DbOpened 1 0 None] example_facade),
    [Emit (ErrorSignal eacces_error)]) \<and>
   snd (on_db_open 1 0 (Some corrupt_error)
     (fst (run [Opened, Disconnected 0, DbOpened 1 0 None] example_facade))) =
    [DetachResource (DbResource 1), Emit (ErrorSignal corrupt_error)] \<and>
   snd (step (ServerErrored 2 eaddrinuse_error)
     (fst (run [Opened, Requested, Disconnected 0, DbOpened 1 0 None, Unlinked 1 None,
                Listening 2 NoReaction] example_facade))) =
    [Emit (ErrorSignal eaddrinuse_error)] \<and>
   snd (on_flush_end 3 None
     (fst (run [Opened, Requested, Disconnected 0, DbOpened 1 0 None, Unlinked 1 None,
                Listening 2 NoReaction] example_facade))) =
    [RemoveFlushListener 3, Emit (ErrorSignal (ModuleError ''Did not flush'' None))]"
proof -
  let ?s = "fst (run [Opened, Disconnected 0, DbOpened 1 0 None] example_facade)"
  let ?l = "fst (run [Opened, Requested, Disconnected 0, DbOpened 1 0 None, Unlinked 1 None,
                      Listening 2 NoReaction] example_facade)"
  have st: "status ?s = Open"
    by (simp add: example_defs callback_defs)
  have sl: "status ?l = Open"
    by (simp add: example_defs callback_defs)
  have el: "2 \<in> set (errorListeners ?l)" and nf: "\<not> flushed ?l"
    by (simp_all add: example_defs callback_defs)
  have c: "err_code eacces_error \<noteq> Some ''ENOENT''"
    by (simp add: eacces_error_def)
  have l: "\<not> is_locked corrupt_error"
    by (simp add: is_locked_def corrupt_error_def)
  from fatal_conditions_emit_error [OF st, of eacces_error 1] c
  have a: "on_unlink 1 (Some eacces_error) ?s = (?s, [Emit (ErrorSignal eacces_error)])"
    by blast
  from fatal_conditions_emit_error [OF st, of corrupt_error 1 0] l
  have "on_db_open 1 0 (Some corrupt_error) ?s =
      (?s\<lparr>resources := set_delete (DbResource 1) (resources ?s)\<rparr>,
       [DetachResource (DbResource 1), Emit (ErrorSignal corrupt_error)])"
    by blast
  then have b: "snd (on_db_open 1 0 (Some corrupt_error) ?s) =
       [DetachResource (DbResource 1), Emit (ErrorSignal corrupt_error)]"
    by (simp del: run.simps)
  from fatal_conditions_emit_error [OF sl, where server = 2 and e = eaddrinuse_error] el
  have "step (ServerErrored 2 eaddrinuse_error) ?l = (?l, [Emit (ErrorSignal eaddrinuse_error)])"
    by blast
  then have d: "snd (step (ServerErrored 2 eaddrinuse_error) ?l) =
      [Emit (ErrorSignal eaddrinuse_error)]"
    by (simp del: run.simps step.simps)
  from fatal_conditions_emit_error [OF sl, where sock = 3 and cause = None] nf
  have "on_flush_end 3 None ?l =
      (?l\<lparr>flushListeners := set_delete 3 (flushListeners ?l)\<rparr>,
       [RemoveFlushListener 3, Emit (ErrorSignal (ModuleError ''Did not flush'' None))])"
    by blast
  then have e: "snd (on_flush_end 3 None ?l) =
      [RemoveFlushListener 3, Emit (ErrorSignal (ModuleError ''Did not flush'' None))]"
    by (simp del: run.simps)
  from st a b d e show ?thesis
    by blast
qed

end
